theory Spec2Isabelle
  imports Complex_Main "HOL-Library.Multiset" "HOL-Library.Sublist" "HOL-Library.Log_Nat"
begin

section \<open>JavaScript numbers\<close>

text \<open>
  A JavaScript number is an IEEE 754 binary64 value: a finite value, an infinity or
  \<^verbatim>\<open>NaN\<close>. A finite value is held as the rational it denotes. The two zeros are one
  value here: the code below never produces \<^verbatim>\<open>-0\<close> except as the quotient of the
  average, where \<^verbatim>\<open>|| 0\<close> replaces it by 0 at once, and it never looks at the sign of a
  zero.
\<close>

datatype double = Fin rat | PosInf | NegInf | NaN

text \<open>
  The binary exponent of a positive rational \<open>x\<close>: the integer \<open>e\<close> with
  \<open>2 powi e \<le> x < 2 powi (e + 1)\<close> (lemma \<open>flog2_bounds\<close>), computed from the bit
  lengths of numerator and denominator.
\<close>

definition flog2 :: "rat \<Rightarrow> int" where
  "flog2 x =
     (case quotient_of x of
        (a, b) \<Rightarrow> (let d = bitlen a - bitlen b in if 2 powi d \<le> x then d else d - 1))"

text \<open>Rounding to the nearest integer, a tie going to the even one.\<close>

definition round_half_even :: "rat \<Rightarrow> int" where
  "round_half_even t =
     (let f = \<lfloor>t\<rfloor>; r = t - of_int f
      in if r < 1 / 2 then f else if 1 / 2 < r then f + 1 else if even f then f else f + 1)"

text \<open>
  Rounding a rational to binary64, to nearest, ties to even. With \<open>e\<close> the binary exponent
  of \<open>\<bar>x\<bar>\<close>, but at least -1022 (below that the values are subnormal), the doubles
  around \<open>\<bar>x\<bar>\<close> are the multiples of \<open>q = 2 powi (e - 52)\<close>; \<open>\<bar>x\<bar>\<close> is rounded to
  \<open>m * q\<close> with \<open>m\<close> the nearest integer to \<open>\<bar>x\<bar> / q\<close>. The result overflows to
  an infinity when \<open>m * q\<close> reaches \<open>2 ^ 1024\<close>, which is when \<open>e\<close> exceeds 1023 or
  \<open>e = 1023\<close> and \<open>m\<close> was rounded up to \<open>2 ^ 53\<close> (lemma \<open>round64_overflow\<close>).
\<close>

definition round64 :: "rat \<Rightarrow> double" where
  "round64 x =
     (if x = 0 then Fin 0
      else
        (let e = max (flog2 \<bar>x\<bar>) (- 1022);
             q = 2 powi (e - 52);
             m = round_half_even (\<bar>x\<bar> / q)
         in if 1023 < e \<or> (e = 1023 \<and> m = 2 ^ 53) then (if 0 < x then PosInf else NegInf)
            else Fin (if 0 < x then of_int m * q else - (of_int m * q))))"

text \<open>Unary minus, addition and subtraction of doubles.\<close>

fun dneg :: "double \<Rightarrow> double" where
  "dneg (Fin x) = Fin (- x)"
| "dneg PosInf = NegInf"
| "dneg NegInf = PosInf"
| "dneg NaN = NaN"

fun dadd :: "double \<Rightarrow> double \<Rightarrow> double" where
  "dadd (Fin x) (Fin y) = round64 (x + y)"
| "dadd NaN b = NaN"
| "dadd a NaN = NaN"
| "dadd PosInf NegInf = NaN"
| "dadd NegInf PosInf = NaN"
| "dadd PosInf b = PosInf"
| "dadd a PosInf = PosInf"
| "dadd NegInf b = NegInf"
| "dadd a NegInf = NegInf"

definition dsub :: "double \<Rightarrow> double \<Rightarrow> double" where
  "dsub a b = dadd a (dneg b)"

text \<open>
  Division of a double by the length of an array (a natural number below \<open>2 ^ 32\<close>, which
  is a double as it stands): \<^verbatim>\<open>0 / 0\<close> is \<^verbatim>\<open>NaN\<close>, another finite number over 0 is
  an infinity, an infinity over a length is that infinity.
\<close>

fun ddiv :: "double \<Rightarrow> nat \<Rightarrow> double" where
  "ddiv (Fin x) n =
     (if n = 0 then (if x = 0 then NaN else if 0 < x then PosInf else NegInf)
      else round64 (x / of_nat n))"
| "ddiv PosInf n = PosInf"
| "ddiv NegInf n = NegInf"
| "ddiv NaN n = NaN"

text \<open>\<^verbatim>\<open>v || 0\<close> on a number: \<^verbatim>\<open>NaN\<close> and 0 are falsy.\<close>

definition js_or0 :: "double \<Rightarrow> double" where
  "js_or0 v = (case v of NaN \<Rightarrow> Fin 0 | Fin x \<Rightarrow> (if x = 0 then Fin 0 else Fin x) | w \<Rightarrow> w)"

text \<open>The test \<^verbatim>\<open>v > 0\<close> that a sort makes on the result of its comparator.\<close>

fun is_positive :: "double \<Rightarrow> bool" where
  "is_positive (Fin x) = (0 < x)"
| "is_positive PosInf = True"
| "is_positive NegInf = False"
| "is_positive NaN = False"

section \<open>The Home page of the meal recommender (Home.jsx)\<close>

text \<open>
  The only ranking and arithmetic the sources perform is in \<^verbatim>\<open>loadHomeData\<close> of
  \<^verbatim>\<open>react-frontend/src/pages/Home.jsx\<close>: it awaits three API calls, sorts the fetched
  meals with one comparator, keeps the first six as the featured meals and computes the
  statistics of the overview panel.
\<close>

subsection \<open>Data\<close>

text \<open>
  A meal object of the JSON answer. A numeric field holds the decimal number written in the
  answer, or is absent (\<^verbatim>\<open>undefined\<close> or \<^verbatim>\<open>null\<close>, \<open>None\<close>); reading it gives the
  double nearest to that decimal, as \<^verbatim>\<open>JSON.parse\<close> does.
\<close>

record meal =
  meal_id :: string
  cuisine :: string
  category :: string
  averageRating :: "rat option"
  popularity :: "rat option"

record stats =
  totalMeals :: nat
  healthySystem :: bool
  stats_averageRating :: double

record api_info =
  mlIntegration_enabled :: bool

record health =
  status :: "string option"

text \<open>
  What the code can find where it expects an object: \<^verbatim>\<open>null\<close> or \<^verbatim>\<open>undefined\<close>, on
  which reading a property throws a \<^verbatim>\<open>TypeError\<close>, or a value whose properties can be
  read.
\<close>

datatype 'a answer = Nullish | Object 'a

text \<open>
  The \<^verbatim>\<open>meals\<close> property of the answer of \<^verbatim>\<open>getMeals\<close>: falsy (absent,
  \<^verbatim>\<open>null\<close>, 0, the empty string), a truthy value that is not an array (it has no
  \<^verbatim>\<open>sort\<close>), or an array, whose elements are meal objects or \<^verbatim>\<open>null\<close>.
\<close>

datatype meals_field = Falsy | NoArray | Array "meal option list"

record meals_response =
  meals :: meals_field

text \<open>An awaited promise either resolves with a value or rejects (the await throws).\<close>

datatype 'a awaited = Rejected | Resolved 'a

text \<open>The component state that \<^verbatim>\<open>loadHomeData\<close> writes through the React setters.\<close>

record home_state =
  stats :: "stats option"
  featuredMeals :: "meal option list"
  loading :: bool
  error :: "string option"
  apiInfo :: "api_info answer"

subsection \<open>The comparator and the sort\<close>

text \<open>
  \<^verbatim>\<open>x || 0\<close> on a numeric field of a meal: the double of the field, 0 for an absent field
  and for a falsy number.
\<close>

definition or0 :: "rat option \<Rightarrow> double" where
  "or0 v = (case v of None \<Rightarrow> Fin 0 | Some x \<Rightarrow> js_or0 (round64 x))"

text \<open>
  \<^verbatim>\<open>(a, b) => (b.averageRating || 0) - (a.averageRating || 0) + (b.popularity || 0) - (a.popularity || 0)\<close>,
  three floating-point operations from left to right.
\<close>

definition comparator :: "meal \<Rightarrow> meal \<Rightarrow> double" where
  "comparator a b =
     dsub (dadd (dsub (or0 (averageRating b)) (or0 (averageRating a))) (or0 (popularity b)))
          (or0 (popularity a))"

text \<open>
  \<^verbatim>\<open>Array.prototype.sort\<close> with a comparator is a stable sort: \<open>a\<close> comes before
  \<open>b\<close> when the comparator is negative, after it when positive, and two elements that
  compare as 0 keep their order; a comparator result \<^verbatim>\<open>NaN\<close> is read as 0. It is
  modelled as the stable insertion sort; the element being inserted stood before all the
  elements of the list it is inserted into. Where the comparator is a consistent comparator,
  every sort that conforms to ECMAScript returns this list. Rounding can make the comparator
  above inconsistent, and then the language leaves the order to the engine; the properties of
  the order proved below are stated for fetched lists on which the comparator computes the
  difference of the sums exactly (\<open>comparator_exact\<close>), the others hold for every
  arrangement of the meals.
\<close>

fun js_insert :: "('a \<Rightarrow> 'a \<Rightarrow> double) \<Rightarrow> 'a \<Rightarrow> 'a list \<Rightarrow> 'a list" where
  "js_insert cmp x [] = [x]"
| "js_insert cmp x (y # ys) =
     (if is_positive (cmp x y) then y # js_insert cmp x ys else x # y # ys)"

fun js_sort :: "('a \<Rightarrow> 'a \<Rightarrow> double) \<Rightarrow> 'a list \<Rightarrow> 'a list" where
  "js_sort cmp [] = []"
| "js_sort cmp (x # xs) = js_insert cmp x (js_sort cmp xs)"

text \<open>\<^verbatim>\<open>meals.sort(comparator).slice(0, 6)\<close>\<close>

definition featured :: "meal list \<Rightarrow> meal list" where
  "featured ms = take 6 (js_sort comparator ms)"

subsection \<open>The statistics\<close>

text \<open>
  \<^verbatim>\<open>meals.reduce((sum, meal) => sum + (meal.averageRating || 0), 0) / meals.length || 0\<close>:
  the ratings are added one by one, from the left, each addition rounding.
\<close>

definition rating_sum :: "meal list \<Rightarrow> double" where
  "rating_sum ms = foldl (\<lambda>sum meal. dadd sum (or0 (averageRating meal))) (Fin 0) ms"

definition average_rating :: "meal list \<Rightarrow> double" where
  "average_rating ms = js_or0 (ddiv (rating_sum ms) (length ms))"

subsection \<open>loadHomeData\<close>

definition failed_message :: string where
  "failed_message = ''Failed to load application data. Please try again.''"

text \<open>
  The \<^verbatim>\<open>catch\<close> branch followed by the \<^verbatim>\<open>finally\<close> branch: whatever was thrown is
  logged and replaced by the one message, and \<open>loading\<close> is cleared.
\<close>

definition failed :: "home_state \<Rightarrow> home_state" where
  "failed s = s\<lparr>error := Some failed_message, loading := False\<rparr>"

text \<open>
  Lines 40 to 61, for the array \<open>xs\<close> that \<^verbatim>\<open>meals\<close> is bound to. A \<^verbatim>\<open>null\<close>
  element makes the comparator throw a \<^verbatim>\<open>TypeError\<close> on line 41 as soon as the sort
  calls it, which every sort does for each element of an array of two or more; an array of
  the one element \<^verbatim>\<open>null\<close> is sorted without a call, stored as the featured list, and
  \<^verbatim>\<open>meal.cuisine\<close> throws on line 50. Without \<^verbatim>\<open>null\<close> elements (\<open>those xs\<close> is
  the list of the meal objects) the sort mutates \<^verbatim>\<open>meals\<close> in place, its first six
  elements are stored as the featured list, and the statistics are computed on the sorted
  array; \<^verbatim>\<open>healthData.status\<close> throws on line 56 when the health answer is
  \<^verbatim>\<open>null\<close>. The cuisine and category tallies of the statistics are left out.
\<close>

definition with_meals :: "health answer \<Rightarrow> meal option list \<Rightarrow> home_state \<Rightarrow> home_state" where
  "with_meals healthData xs s2 =
     (case those xs of
        None \<Rightarrow>
          (if 2 \<le> length xs then failed s2
           else failed (s2\<lparr>featuredMeals := take 6 xs\<rparr>))
      | Some ms \<Rightarrow>
          (let sorted_meals = js_sort comparator ms;
               s3 = s2\<lparr>featuredMeals := map Some (take 6 sorted_meals)\<rparr>
           in case healthData of
                Nullish \<Rightarrow> failed s3
              | Object h \<Rightarrow>
                  s3\<lparr>stats := Some \<lparr>totalMeals = length sorted_meals,
                                     healthySystem = (status h = Some ''healthy''),
                                     stats_averageRating = average_rating sorted_meals\<rparr>,
                     loading := False\<rparr>))"

text \<open>
  The three awaited answers are the inputs. A rejected call throws into the \<^verbatim>\<open>catch\<close>
  branch, and so does every \<^verbatim>\<open>TypeError\<close>: \<^verbatim>\<open>mealsResponse.meals\<close> on a
  \<^verbatim>\<open>null\<close> answer (line 37), \<^verbatim>\<open>meals.sort\<close> on a truthy value that is not an array
  (line 40), and those of \<open>with_meals\<close>. \<^verbatim>\<open>mealsResponse.meals || []\<close> turns a falsy
  property into the empty array.
\<close>

definition loadHomeData ::
    "api_info answer awaited \<Rightarrow> health answer awaited \<Rightarrow> meals_response answer awaited
      \<Rightarrow> home_state \<Rightarrow> home_state" where
  "loadHomeData apiInfoCall healthCall mealsCall s0 =
     (let s1 = s0\<lparr>loading := True, error := None\<rparr> in
      case (apiInfoCall, healthCall) of
        (Resolved apiInfoData, Resolved healthData) \<Rightarrow>
          (let s2 = s1\<lparr>apiInfo := apiInfoData\<rparr> in
           case mealsCall of
             Rejected \<Rightarrow> failed s2
           | Resolved Nullish \<Rightarrow> failed s2
           | Resolved (Object mealsResponse) \<Rightarrow>
               (case meals mealsResponse of
                  Falsy \<Rightarrow> with_meals healthData [] s2
                | NoArray \<Rightarrow> failed s2
                | Array xs \<Rightarrow> with_meals healthData xs s2))
      | _ \<Rightarrow> failed s1)"

text \<open>The state of the component when it mounts.\<close>

definition initial_state :: home_state where
  "initial_state =
     \<lparr>stats = None, featuredMeals = [], loading = True, error = None, apiInfo = Nullish\<rparr>"

subsection \<open>Notions used to state the properties\<close>








subsection \<open>Example data\<close>

definition salad :: meal where
  "salad = \<lparr>meal_id = ''m1'', cuisine = ''Greek'', category = ''Lunch'',
             averageRating = Some 3, popularity = Some 2\<rparr>"

definition curry :: meal where
  "curry = \<lparr>meal_id = ''m2'', cuisine = ''Indian'', category = ''Dinner'',
             averageRating = Some 4, popularity = Some 1\<rparr>"

definition soup :: meal where
  "soup = \<lparr>meal_id = ''m3'', cuisine = ''Thai'', category = ''Lunch'',
            averageRating = Some (9 / 2), popularity = None\<rparr>"




definition toast :: meal where
  "toast = \<lparr>meal_id = ''m7'', cuisine = ''French'', category = ''Breakfast'',
             averageRating = Some (1 / 10), popularity = None\<rparr>"

definition wrap :: meal where
  "wrap = \<lparr>meal_id = ''m8'', cuisine = ''Mexican'', category = ''Lunch'',
            averageRating = Some (2 / 10), popularity = None\<rparr>"

text \<open>A meal whose rating is the double \<open>2 ^ 1023\<close>; twice that is beyond the largest double.\<close>

definition feast :: meal where
  "feast = \<lparr>meal_id = ''m9'', cuisine = ''Greek'', category = ''Dinner'',
             averageRating = Some (2 ^ 1023), popularity = None\<rparr>"

definition api_up :: api_info where
  "api_up = \<lparr>mlIntegration_enabled = True\<rparr>"

definition health_ok :: health where
  "health_ok = \<lparr>status = Some ''healthy''\<rparr>"

section \<open>The ranking engine of the specification\<close>

text \<open>
  The specification describes a ranking engine \<^verbatim>\<open>rank\<close> (its section 4.1) with ML
  scores, dietary restrictions and a diversity pass. None of it is among the sources: the
  Home page only links to the recommendations page. The definitions of this section follow
  the words of the specification; the properties proved of them are properties of that
  description, not of code.
\<close>

subsection \<open>Data\<close>

text \<open>
  Modelled from the spec: the Meal of the data model (section 3), which the engine reads and
  which is not among the sources: identifier, cuisine, category, nutrition facts, average
  rating (may be absent), popularity counter, and the tags the dietary restrictions match.
\<close>

record Meal =
  m_id :: nat
  m_cuisine :: string
  m_category :: string
  m_calories :: real
  m_protein :: real
  m_averageRating :: "real option"
  m_popularity :: nat
  m_tags :: "string list"

text \<open>
  Modelled from the spec: the NutritionGoal of the data model, not among the sources: target
  calories and protein, and the optional set of dietary restriction tags.
\<close>

record NutritionGoal =
  g_calories :: real
  g_protein :: real
  g_restrictions :: "string list"

text \<open>
  Modelled from the spec: the MLScore of the data model, not among the sources: a mapping
  from meal identifier to affinity, possibly partial. The whole mapping is absent
  (\<open>None\<close>) when the ML service is down.
\<close>

type_synonym MLScore = "(nat \<times> real) list"

text \<open>Modelled from the spec: the two errors of the error taxonomy (section 7).\<close>

datatype rank_error = InvalidInput | InconsistentScore

text \<open>Modelled from the spec: the score breakdown that accompanies each ranked meal.\<close>

record ScoreBreakdown =
  ratingComponent :: real
  popularityComponent :: real
  nutritionFitComponent :: "real option"
  mlComponent :: "real option"

text \<open>
  Modelled from the spec: one entry of the RankedRecommendation, a meal with its composite
  score and score breakdown.
\<close>

record RankedItem =
  r_meal :: Meal
  compositeScore :: real
  scoreBreakdown :: ScoreBreakdown

text \<open>
  Modelled from the spec: what the engine returns to the presentation layer (section 6),
  the ordered recommendation and the flag \<open>mlDegraded\<close>.
\<close>

record RankedRecommendation =
  recommendation :: "RankedItem list"
  mlDegraded :: bool

subsection \<open>Scoring\<close>

text \<open>Modelled from the spec: the average rating, 0 when absent (data model).\<close>

definition rating_of :: "Meal \<Rightarrow> real" where
  "rating_of m = (case m_averageRating m of None \<Rightarrow> 0 | Some r \<Rightarrow> r)"

text \<open>Modelled from the spec: step 1 of the scoring algorithm, \<^verbatim>\<open>averageRating / 5.0\<close>.\<close>

definition rating_component :: "Meal \<Rightarrow> real" where
  "rating_component m = rating_of m / 5"

text \<open>Modelled from the spec: \<^verbatim>\<open>log1p\<close> of step 2, the natural logarithm of 1 + x.\<close>

definition log1p :: "real \<Rightarrow> real" where
  "log1p x = ln (1 + x)"

text \<open>
  Modelled from the spec: \<^verbatim>\<open>maxPopularityInCandidateSet\<close> of step 2, computed once per
  call (design notes).
\<close>

definition max_popularity :: "Meal list \<Rightarrow> nat" where
  "max_popularity cs = foldr (\<lambda>m acc. max (m_popularity m) acc) cs 0"

text \<open>
  Modelled from the spec: step 2,
  \<^verbatim>\<open>log1p(popularity) / log1p(maxPopularityInCandidateSet)\<close> with a denominator floor of 1.
\<close>

definition popularity_component :: "nat \<Rightarrow> Meal \<Rightarrow> real" where
  "popularity_component maxPop m = log1p (real (m_popularity m)) / max 1 (log1p (real maxPop))"

text \<open>Modelled from the spec: the clamp to [0,1] of step 3.\<close>

definition clamp01 :: "real \<Rightarrow> real" where
  "clamp01 v = max 0 (min 1 v)"

text \<open>
  Modelled from the spec: one term of step 3,
  \<^verbatim>\<open>1 - min(1, |meal.calories - goal.calories| / goal.calories)\<close>, clamped.
\<close>

definition fit_term :: "real \<Rightarrow> real \<Rightarrow> real" where
  "fit_term actual target = clamp01 (1 - min 1 (\<bar>actual - target\<bar> / target))"

text \<open>
  Modelled from the spec: step 3, the calorie term averaged with the analogous protein term.
\<close>

definition nutrition_fit_component :: "NutritionGoal \<Rightarrow> Meal \<Rightarrow> real" where
  "nutrition_fit_component g m =
     (fit_term (m_calories m) (g_calories g) + fit_term (m_protein m) (g_protein g)) / 2"

text \<open>
  Modelled from the spec: step 4, the raw ML affinity of the meal, when the mapping is
  present and has a score for it.
\<close>

definition ml_component :: "MLScore option \<Rightarrow> Meal \<Rightarrow> real option" where
  "ml_component mlScores m = (case mlScores of None \<Rightarrow> None | Some s \<Rightarrow> map_of s (m_id m))"

text \<open>
  Modelled from the spec: the base weights of step 5, rating 0.25, popularity 0.15,
  nutritionFit 0.25, ml 0.35.
\<close>

definition w_rating :: real where "w_rating = 25 / 100"

text \<open>Modelled from the spec: the base weight of the popularity component (step 5).\<close>

definition w_popularity :: real where "w_popularity = 15 / 100"

text \<open>Modelled from the spec: the base weight of the nutritionFit component (step 5).\<close>

definition w_nutritionFit :: real where "w_nutritionFit = 25 / 100"

text \<open>Modelled from the spec: the base weight of the ml component (step 5).\<close>

definition w_ml :: real where "w_ml = 35 / 100"

text \<open>
  Modelled from the spec: the weight policy of step 5. The weight of a component that is
  unavailable for the meal is redistributed proportionally over the available ones: each
  available base weight is divided by the sum of the available base weights.
\<close>

definition effective_weights :: "bool \<Rightarrow> bool \<Rightarrow> real \<times> real \<times> real \<times> real" where
  "effective_weights hasFit hasMl =
     (let total = w_rating + w_popularity + (if hasFit then w_nutritionFit else 0)
                    + (if hasMl then w_ml else 0)
      in (w_rating / total, w_popularity / total,
          (if hasFit then w_nutritionFit / total else 0),
          (if hasMl then w_ml / total else 0)))"

text \<open>
  Modelled from the spec: step 6, the composite score of one meal, the weighted sum of its
  available components, with its breakdown.
\<close>

definition score :: "NutritionGoal option \<Rightarrow> MLScore option \<Rightarrow> nat \<Rightarrow> Meal \<Rightarrow> RankedItem" where
  "score goal mlScores maxPop m =
     (let fit = map_option (\<lambda>g. nutrition_fit_component g m) goal;
          ml = ml_component mlScores m;
          rc = rating_component m;
          pc = popularity_component maxPop m
      in case effective_weights (fit \<noteq> None) (ml \<noteq> None) of
           (wr, wp, wn, wm) \<Rightarrow>
             \<lparr>r_meal = m,
              compositeScore = wr * rc + wp * pc
                 + wn * (case fit of None \<Rightarrow> 0 | Some v \<Rightarrow> v)
                 + wm * (case ml of None \<Rightarrow> 0 | Some v \<Rightarrow> v),
              scoreBreakdown = \<lparr>ratingComponent = rc, popularityComponent = pc,
                                nutritionFitComponent = fit, mlComponent = ml\<rparr>\<rparr>)"

subsection \<open>Ordering\<close>

text \<open>
  Modelled from the spec: the tie-break order: composite score descending, then average
  rating descending, then popularity descending, then identifier ascending.
\<close>

definition ranks_before :: "RankedItem \<Rightarrow> RankedItem \<Rightarrow> bool" where
  "ranks_before a b =
     (compositeScore b < compositeScore a
      \<or> (compositeScore a = compositeScore b
          \<and> (rating_of (r_meal b) < rating_of (r_meal a)
              \<or> (rating_of (r_meal a) = rating_of (r_meal b)
                  \<and> (m_popularity (r_meal b) < m_popularity (r_meal a)
                      \<or> (m_popularity (r_meal a) = m_popularity (r_meal b)
                          \<and> m_id (r_meal a) \<le> m_id (r_meal b)))))))"

text \<open>Modelled from the spec: the sort by that order, one insertion.\<close>

fun rank_insert :: "RankedItem \<Rightarrow> RankedItem list \<Rightarrow> RankedItem list" where
  "rank_insert x [] = [x]"
| "rank_insert x (y # ys) = (if ranks_before x y then x # y # ys else y # rank_insert x ys)"

text \<open>Modelled from the spec: the sort by that order.\<close>

fun rank_sort :: "RankedItem list \<Rightarrow> RankedItem list" where
  "rank_sort [] = []"
| "rank_sort (x # xs) = rank_insert x (rank_sort xs)"

text \<open>
  Modelled from the spec: the deduplication (no duplicate meal identifiers in the output).
  The specification does not say which of two entries with one identifier stays; here the
  better ranked one does.
\<close>

fun dedup_ids :: "nat list \<Rightarrow> RankedItem list \<Rightarrow> RankedItem list" where
  "dedup_ids seen [] = []"
| "dedup_ids seen (x # xs) =
     (if m_id (r_meal x) \<in> set seen then dedup_ids seen xs
      else x # dedup_ids (m_id (r_meal x) # seen) xs)"

subsection \<open>The diversity pass\<close>

text \<open>Modelled from the spec: the last \<open>k\<close> selected items of the diversity pass.\<close>

definition last_k :: "nat \<Rightarrow> 'a list \<Rightarrow> 'a list" where
  "last_k k xs = drop (length xs - k) xs"

text \<open>
  Modelled from the spec: the greedy walk of the diversity pass. The next item is skipped,
  that is put at the end of the secondary queue, if its cuisine appears among the last
  \<open>k\<close> selected items, unless skipping would leave fewer than \<open>limit\<close> items
  selectable; the walk stops when \<open>limit\<close> items are selected. The specification does
  not say which items count as selectable, nor when the secondary queue is read. Here the
  selectable items are those selected so far and those still to walk, and the walk returns
  the selected items together with the secondary queue.
\<close>

fun diversity_walk ::
    "nat \<Rightarrow> nat \<Rightarrow> RankedItem list \<Rightarrow> RankedItem list \<Rightarrow> RankedItem list
      \<Rightarrow> RankedItem list \<times> RankedItem list" where
  "diversity_walk limit k selected deferred [] = (selected, deferred)"
| "diversity_walk limit k selected deferred (x # rest) =
     (if limit \<le> length selected then (selected, deferred)
      else if m_cuisine (r_meal x) \<in> set (map (\<lambda>s. m_cuisine (r_meal s)) (last_k k selected))
              \<and> limit \<le> length selected + length rest
      then diversity_walk limit k selected (deferred @ [x]) rest
      else diversity_walk limit k (selected @ [x]) deferred rest)"

text \<open>
  Modelled from the spec: the diversity pass, the walk over the top \<open>3 * limit\<close> sorted
  candidates with \<open>k = max 1 (limit div 3)\<close>; the output is filled up to \<open>limit\<close>
  items from the secondary queue, in the order in which the items were deferred.
\<close>

definition diversity_pass :: "nat \<Rightarrow> RankedItem list \<Rightarrow> RankedItem list" where
  "diversity_pass limit sorted_items =
     (case diversity_walk limit (max 1 (limit div 3)) [] [] (take (3 * limit) sorted_items) of
        (selected, deferred) \<Rightarrow> take limit (selected @ deferred))"

subsection \<open>rank\<close>

text \<open>
  Modelled from the spec: the dietary exclusion: with a goal, a meal one of whose tags is
  among the goal's restrictions is excluded.
\<close>

definition excluded :: "NutritionGoal option \<Rightarrow> Meal \<Rightarrow> bool" where
  "excluded goal m =
     (case goal of None \<Rightarrow> False
      | Some g \<Rightarrow> list_ex (\<lambda>t. t \<in> set (g_restrictions g)) (m_tags m))"

text \<open>
  Modelled from the spec: the test behind InconsistentScore: the mapping is present and one
  of its scores lies outside [0,1].
\<close>

definition inconsistent :: "MLScore option \<Rightarrow> bool" where
  "inconsistent mlScores =
     (case mlScores of None \<Rightarrow> False | Some s \<Rightarrow> list_ex (\<lambda>kv. snd kv < 0 \<or> 1 < snd kv) s)"

text \<open>
  Modelled from the spec: the contract \<^verbatim>\<open>rank(candidates, goal, mlScores, limit)\<close> of
  section 4.1, not among the sources. The specification does not say which error a call
  gets that is a misuse and has a score out of range; here the misuse is reported. Then the
  excluded meals are dropped, the rest is scored, sorted and deduplicated, and the diversity
  pass selects the output.
\<close>

definition rank ::
    "Meal list \<Rightarrow> NutritionGoal option \<Rightarrow> MLScore option \<Rightarrow> int
      \<Rightarrow> rank_error + RankedRecommendation" where
  "rank candidates goal mlScores limit =
     (if candidates = [] \<or> limit \<le> 0 then Inl InvalidInput
      else if inconsistent mlScores then Inl InconsistentScore
      else
        (let eligible = filter (\<lambda>m. \<not> excluded goal m) candidates;
             maxPop = max_popularity candidates;
             scored = map (score goal mlScores maxPop) eligible;
             ordered = dedup_ids [] (rank_sort scored)
         in Inr \<lparr>recommendation = diversity_pass (nat limit) ordered,
                 mlDegraded = (mlScores = None)\<rparr>))"

subsection \<open>Example data for the engine\<close>

text \<open>A meal with a restricted tag and the best rating, a meal without, and a goal.\<close>

definition steak :: Meal where
  "steak = \<lparr>m_id = 1, m_cuisine = ''Grill'', m_category = ''Dinner'', m_calories = 700,
            m_protein = 50, m_averageRating = Some 5, m_popularity = 0, m_tags = [''meat'']\<rparr>"

definition dal :: Meal where
  "dal = \<lparr>m_id = 2, m_cuisine = ''Indian'', m_category = ''Dinner'', m_calories = 600,
          m_protein = 30, m_averageRating = Some 4, m_popularity = 0, m_tags = [''vegan'']\<rparr>"

definition vegetarian :: NutritionGoal where
  "vegetarian = \<lparr>g_calories = 600, g_protein = 30, g_restrictions = [''meat'', ''fish'']\<rparr>"

section \<open>Rounding to binary64\<close>

lemma flog2_bounds:
  assumes "0 < x"
  shows "2 powi (flog2 x) \<le> x" and "x < 2 powi (flog2 x + 1)"
proof -
  obtain a b where q: "quotient_of x = (a, b)" by (cases "quotient_of x")
  then have b: "0 < b" and x: "x = of_int a / of_int b"
    by (simp_all add: quotient_of_denom_pos quotient_of_div)
  with assms have a: "0 < a"
    by (simp add: zero_less_divide_iff)
  define d where "d = bitlen a - bitlen b"
  have la: "1 \<le> bitlen a" and lb: "1 \<le> bitlen b"
    using a b bitlen_eq_zero_iff [of a] bitlen_eq_zero_iff [of b] bitlen_nonneg [of a] bitlen_nonneg [of b]
    by linarith+
  have ba: "(2::rat) powi (bitlen a - 1) \<le> of_int a" "of_int a < (2::rat) powi (bitlen a)"
  proof -
    from bitlen_bounds [OF a] have "2 ^ nat (bitlen a - 1) \<le> a" "a < 2 ^ nat (bitlen a)" by simp_all
    then have "(of_int (2 ^ nat (bitlen a - 1)) :: rat) \<le> of_int a" "(of_int a :: rat) < of_int (2 ^ nat (bitlen a))"
      by (simp_all only: of_int_le_iff of_int_less_iff)
    then show "(2::rat) powi (bitlen a - 1) \<le> of_int a" "of_int a < (2::rat) powi (bitlen a)"
      using la by (simp_all add: power_int_def)
  qed
  have bb: "(2::rat) powi (bitlen b - 1) \<le> of_int b" "of_int b < (2::rat) powi (bitlen b)"
  proof -
    from bitlen_bounds [OF b] have "2 ^ nat (bitlen b - 1) \<le> b" "b < 2 ^ nat (bitlen b)" by simp_all
    then have "(of_int (2 ^ nat (bitlen b - 1)) :: rat) \<le> of_int b" "(of_int b :: rat) < of_int (2 ^ nat (bitlen b))"
      by (simp_all only: of_int_le_iff of_int_less_iff)
    then show "(2::rat) powi (bitlen b - 1) \<le> of_int b" "of_int b < (2::rat) powi (bitlen b)"
      using lb by (simp_all add: power_int_def)
  qed
  have pb: "(0::rat) < of_int b" using b by simp
  have lo: "(2::rat) powi (d - 1) \<le> x"
  proof -
    have "(2::rat) powi (d - 1) = 2 powi (bitlen a - 1) / 2 powi (bitlen b)"
      by (simp add: d_def power_int_diff)
    also have "\<dots> \<le> of_int a / 2 powi (bitlen b)"
      using ba(1) by (simp add: divide_right_mono)
    also have "\<dots> \<le> of_int a / of_int b"
      using bb(2) a pb by (simp add: frac_le)
    finally show ?thesis by (simp add: x)
  qed
  have hi: "x < (2::rat) powi (d + 1)"
  proof -
    have "of_int a / of_int b < 2 powi (bitlen a) / (of_int b :: rat)"
      using ba(2) pb by (simp add: divide_strict_right_mono)
    also have "\<dots> \<le> 2 powi (bitlen a) / 2 powi (bitlen b - 1)"
      using bb(1) by (simp add: frac_le)
    also have "\<dots> = (2::rat) powi (d + 1)"
      by (simp add: d_def power_int_diff power_int_add)
    finally show ?thesis by (simp add: x)
  qed
  have e: "flog2 x = (if 2 powi d \<le> x then d else d - 1)"
    by (simp add: flog2_def q d_def Let_def)
  show "2 powi (flog2 x) \<le> x"
    using lo by (simp add: e)
  show "x < 2 powi (flog2 x + 1)"
    using hi by (auto simp: e not_le)
qed

lemma round_half_even_of_int: "round_half_even (of_int k) = k"
  by (simp add: round_half_even_def)

lemma round_half_even_ge:
  assumes "of_int N \<le> t"
  shows "N \<le> round_half_even t"
proof -
  have "N \<le> \<lfloor>t\<rfloor>" using assms by (simp add: le_floor_iff)
  then show ?thesis by (simp add: round_half_even_def Let_def)
qed

lemma round_half_even_le:
  assumes "t \<le> of_int N"
  shows "round_half_even t \<le> N"
proof (cases "t = of_int \<lfloor>t\<rfloor>")
  case True
  then have "round_half_even t = \<lfloor>t\<rfloor>"
    by (simp add: round_half_even_def Let_def)
  moreover have "\<lfloor>t\<rfloor> \<le> N" using assms by (simp add: floor_le_iff) 
  ultimately show ?thesis by simp
next
  case False
  then have "of_int \<lfloor>t\<rfloor> < t" using of_int_floor_le [of t] by linarith
  with assms have "(of_int \<lfloor>t\<rfloor> :: rat) < of_int N" by linarith
  then have "\<lfloor>t\<rfloor> < N" by (simp only: of_int_less_iff)
  then show ?thesis by (simp add: round_half_even_def Let_def)
qed

lemma powi2_le_iff: "(2::rat) powi m \<le> 2 powi n \<longleftrightarrow> m \<le> n"
proof
  assume a: "(2::rat) powi m \<le> 2 powi n"
  show "m \<le> n"
  proof (rule ccontr)
    assume "\<not> m \<le> n"
    then have "n < m" by simp
    then have "(2::rat) powi n < 2 powi m" by (rule power_int_strict_increasing) simp
    with a show False by simp
  qed
next
  assume "m \<le> n"
  then show "(2::rat) powi m \<le> 2 powi n" by (rule power_int_increasing) simp
qed

lemma powi2_less_iff: "(2::rat) powi m < 2 powi n \<longleftrightarrow> m < n"
  using powi2_le_iff [of n m] by (simp add: not_le [symmetric])

lemma div_eq_times: "(c::rat) \<noteq> 0 \<Longrightarrow> a / c = b \<Longrightarrow> a = b * c"
  by auto

lemma powi2_pos: "(0::rat) < 2 powi n"
  by simp

lemma powi2_split: "(2::rat) powi (m + n) = 2 powi m * 2 powi n"
  by (rule power_int_add) simp

lemma powi2_div: "(2::rat) powi m / 2 powi n = 2 powi (m - n)"
  by (simp add: power_int_diff)

lemma round64_representable:
  assumes m: "\<bar>m\<bar> < 2 ^ 53" and e: "- 1074 \<le> e"
    and b: "\<bar>of_int m * 2 powi e\<bar> < (2::rat) powi 1024"
  shows "round64 (of_int m * 2 powi e) = Fin (of_int m * 2 powi e)"
proof (cases "m = 0")
  case True
  then show ?thesis by (simp add: round64_def)
next
  case False
  define x :: rat where "x = of_int m * 2 powi e"
  define a where "a = \<bar>x\<bar>"
  have a_eq: "a = of_int \<bar>m\<bar> * 2 powi e"
    by (simp add: a_def x_def abs_mult)
  have x0: "x \<noteq> 0" using False by (simp add: x_def)
  then have pos: "0 < a" by (simp add: a_def)
  define f where "f = flog2 a"
  have lo: "2 powi f \<le> a" and hi: "a < 2 powi (f + 1)"
    using flog2_bounds [OF pos] by (simp_all add: f_def)
  have "(of_int \<bar>m\<bar> :: rat) < of_int (2 ^ 53)"
    using m by (simp only: of_int_less_iff)
  then have "(of_int \<bar>m\<bar> :: rat) < 2 powi 53" by simp
  then have "a < 2 powi 53 * 2 powi e"
    unfolding a_eq using powi2_pos [of e] by (simp only: mult_strict_right_mono)
  then have a53: "a < 2 powi (53 + e)" by (simp only: powi2_split)
  from lo a53 have "(2::rat) powi f < 2 powi (53 + e)" by (rule le_less_trans)
  then have f1: "f \<le> e + 52" by (simp add: powi2_less_iff)
  from b have "a < 2 powi 1024" by (simp only: a_def x_def)
  with lo have "(2::rat) powi f < 2 powi 1024" by (rule le_less_trans)
  then have f2: "f \<le> 1023" by (simp only: powi2_less_iff)
  define E where "E = max f (- 1022)"
  have E1: "E \<le> e + 52" and E2: "E \<le> 1023" and E3: "f \<le> E"
    using f1 f2 e by (simp_all add: E_def)
  define q :: rat where "q = 2 powi (E - 52)"
  have q0: "q \<noteq> 0" "0 < q" by (simp_all add: q_def)
  define K where "K = \<bar>m\<bar> * 2 ^ nat (e + 52 - E)"
  have "2 powi e / q = 2 powi (e + 52 - E)"
    by (simp add: q_def powi2_div algebra_simps)
  also have "\<dots> = 2 ^ nat (e + 52 - E)"
    using E1 by (simp add: power_int_def)
  finally have pq: "2 powi e / q = 2 ^ nat (e + 52 - E)" .
  have "a / q = of_int \<bar>m\<bar> * (2 powi e / q)"
    by (simp add: a_eq)
  also have "\<dots> = of_int K"
    by (simp only: pq K_def of_int_mult of_int_power of_int_numeral)
  finally have t: "a / q = of_int K" .
  have aK: "a = of_int K * q" using q0(1) t by (rule div_eq_times)
  have M: "round_half_even (a / q) = K"
    by (simp only: t round_half_even_of_int)
  have "a < 2 powi (E + 1)"
    using hi E3 powi2_le_iff [of "f + 1" "E + 1"] by simp
  also have "(2::rat) powi (E + 1) = 2 powi 53 * q"
  proof -
    have "E + 1 = 53 + (E - 52)" by simp
    then show ?thesis unfolding q_def by (simp only: powi2_split)
  qed
  finally have "of_int K * q < 2 powi 53 * q" by (simp only: aK)
  then have "(of_int K :: rat) < 2 powi 53" using q0(2) by (simp only: mult_less_cancel_right_pos)
  then have "(of_int K :: rat) < of_int (2 ^ 53)" by simp
  then have K53: "K < 2 ^ 53" by (simp only: of_int_less_iff)
  have "round64 x = Fin (if 0 < x then a else - a)"
    using x0 E2 K53 unfolding round64_def Let_def a_def [symmetric] f_def [symmetric]
      E_def [symmetric] q_def [symmetric] M aK [symmetric]
    by simp
  then show ?thesis by (simp add: a_def x_def [symmetric])
qed






lemma round64_pow2:
  assumes "- 1022 \<le> n" and "n \<le> 1023"
  shows "round64 (2 powi n) = Fin (2 powi n)"
proof -
  have "(2::rat) powi n < 2 powi 1024"
    using assms(2) unfolding powi2_less_iff by linarith
  moreover have "\<bar>of_int 1 * (2::rat) powi n\<bar> = 2 powi n" by simp
  ultimately have "\<bar>of_int 1 * (2::rat) powi n\<bar> < 2 powi 1024" by (simp only:)
  then have "round64 (of_int 1 * 2 powi n) = Fin (of_int 1 * 2 powi n)"
    using assms by (intro round64_representable) simp_all
  then show ?thesis by simp
qed

lemma round64_huge:
  assumes "2 powi 1024 \<le> x"
  shows "round64 x = PosInf"
proof -
  have "(0::rat) < 2 powi 1024" by (rule powi2_pos)
  from this assms have pos: "0 < x" by (rule less_le_trans)
  then have ax: "\<bar>x\<bar> = x" by simp
  have "x < 2 powi (flog2 x + 1)" using flog2_bounds(2) [OF pos] .
  with assms have "(2::rat) powi 1024 < 2 powi (flog2 x + 1)" by (rule le_less_trans)
  then have "1023 < flog2 x" unfolding powi2_less_iff by linarith
  then have big: "1023 < flog2 x" and mx: "max (flog2 x) (- 1022) = flog2 x" by simp_all
  show ?thesis
    unfolding round64_def Let_def ax mx using pos big by simp
qed

lemma round64_overflow:
  assumes "x \<noteq> 0"
  defines "e \<equiv> max (flog2 \<bar>x\<bar>) (- 1022)"
  defines "m \<equiv> round_half_even (\<bar>x\<bar> / 2 powi (e - 52))"
  shows "(1023 < e \<or> (e = 1023 \<and> m = 2 ^ 53)) \<longleftrightarrow> 2 powi 1024 \<le> of_int m * (2::rat) powi (e - 52)"
proof -
  define a where "a = \<bar>x\<bar>"
  define f where "f = flog2 a"
  define q :: rat where "q = 2 powi (e - 52)"
  have pos: "0 < a" using assms(1) by (simp add: a_def)
  have lo: "2 powi f \<le> a" and hi: "a < 2 powi (f + 1)"
    using flog2_bounds [OF pos] by (simp_all add: f_def)
  have e_def': "e = max f (- 1022)" by (simp add: e_def f_def a_def)
  have m_def': "m = round_half_even (a / q)" by (simp add: m_def q_def a_def)
  have q0: "0 < q" by (simp add: q_def)
  have q53: "2 powi 53 * q = 2 powi (e + 1)"
  proof -
    have "e + 1 = 53 + (e - 52)" by simp
    then show ?thesis unfolding q_def by (simp only: powi2_split)
  qed
  have q52: "2 powi 52 * q = 2 powi e"
  proof -
    have "e = 52 + (e - 52)" by simp
    then show ?thesis unfolding q_def by (metis powi2_split)
  qed
  have "a < 2 powi (e + 1)"
    using hi powi2_le_iff [of "f + 1" "e + 1"] by (simp add: e_def')
  then have "a < 2 powi 53 * q" by (simp only: q53)
  then have "a / q < 2 powi 53" using q0 by (simp add: pos_divide_less_eq)
  then have "a / q \<le> of_int (2 ^ 53)" by simp
  then have up: "m \<le> 2 ^ 53" unfolding m_def' by (rule round_half_even_le)
  have low: "2 ^ 52 \<le> m" if "e = f"
  proof -
    from lo that have "2 powi 52 * q \<le> a" by (simp only: q52)
    then have "2 powi 52 \<le> a / q" using q0 by (simp add: pos_le_divide_eq)
    then have "of_int (2 ^ 52) \<le> a / q" by simp
    then show ?thesis unfolding m_def' by (rule round_half_even_ge)
  qed
  have of53: "(of_int (2 ^ 53) :: rat) = 2 powi 53" and of52: "(of_int (2 ^ 52) :: rat) = 2 powi 52"
    by simp_all
  show ?thesis
  proof
    assume "1023 < e \<or> (e = 1023 \<and> m = 2 ^ 53)"
    then show "2 powi 1024 \<le> of_int m * (2::rat) powi (e - 52)"
    proof
      assume big: "1023 < e"
      then have "e = f" by (simp add: e_def' max_def split: if_splits)
      then have "(of_int (2 ^ 52) :: rat) \<le> of_int m" using low by (simp only: of_int_le_iff)
      then have "2 powi 52 * q \<le> of_int m * q"
        using q0 by (simp only: of52 mult_le_cancel_right_pos)
      then have "2 powi e \<le> of_int m * q" by (simp only: q52)
      moreover have "(2::rat) powi 1024 \<le> 2 powi e" using big unfolding powi2_le_iff by linarith
      ultimately show ?thesis unfolding q_def by (rule order_trans [rotated])
    next
      assume h: "e = 1023 \<and> m = 2 ^ 53"
      then have "of_int m * q = 2 powi 53 * q" by (simp only: of53)
      also have "\<dots> = 2 powi 1024" using h by (simp only: q53) simp
      finally show ?thesis by (simp add: q_def)
    qed
  next
    assume h: "2 powi 1024 \<le> of_int m * (2::rat) powi (e - 52)"
    show "1023 < e \<or> (e = 1023 \<and> m = 2 ^ 53)"
    proof (cases "1023 < e")
      case True
      then show ?thesis by simp
    next
      case False
      have "(of_int m :: rat) \<le> of_int (2 ^ 53)" using up by (simp only: of_int_le_iff)
      then have mq: "of_int m * q \<le> 2 powi 53 * q"
        using q0 by (simp only: of53 mult_le_cancel_right_pos)
      then have "of_int m * q \<le> 2 powi (e + 1)" by (simp only: q53)
      with h have "(2::rat) powi 1024 \<le> 2 powi (e + 1)" unfolding q_def by (rule order_trans)
      then have "1024 \<le> e + 1" by (simp only: powi2_le_iff)
      with False have e: "e = 1023" by simp
      then have "(2::rat) powi 1024 = 2 powi 53 * q" by (simp only: q53) simp
      with h have "2 powi 53 * q \<le> of_int m * q" by (simp add: q_def)
      then have "(of_int (2 ^ 53) :: rat) \<le> of_int m"
        using q0 by (simp only: of53 mult_le_cancel_right_pos)
      then have "2 ^ 53 \<le> m" by (simp only: of_int_le_iff)
      with up e show ?thesis by simp
    qed
  qed
qed

lemma js_or0_Fin: "js_or0 (Fin x) = Fin x"
  by (simp add: js_or0_def)

lemma js_or0_not_NaN: "js_or0 v \<noteq> NaN"
  by (cases v) (simp_all add: js_or0_def)








section \<open>The sort keeps the meals\<close>

lemma mset_js_insert: "mset (js_insert cmp x xs) = add_mset x (mset xs)"
  by (induction xs) auto

lemma mset_js_sort: "mset (js_sort cmp xs) = mset xs"
  by (induction xs) (auto simp: mset_js_insert)


lemma length_js_sort: "length (js_sort cmp xs) = length xs"
  using mset_js_sort [of cmp xs] by (metis size_mset)


lemma distinct_ids_js_sort:
  assumes "distinct (map meal_id ms)"
  shows "distinct (map meal_id (js_sort cmp ms))"
proof -
  have "mset (map meal_id (js_sort cmp ms)) = mset (map meal_id ms)"
    by (simp add: mset_js_sort)
  with assms show ?thesis
    by (metis mset_eq_imp_distinct_iff)
qed

section \<open>On an exact comparator the sort is the stable sort by descending sum\<close>





section \<open>Who stands before whom\<close>










section \<open>Rounding at work\<close>




lemma average_toast_wrap:
  "average_rating [toast, wrap] = Fin (1351079888211149 / 2 ^ 53)"
  by code_simp

lemma or0_feast: "or0 (averageRating feast) = Fin (2 powi 1023)"
proof -
  have "round64 (2 powi 1023) = Fin (2 powi 1023)"
    by (rule round64_pow2) simp_all
  moreover have "(2::rat) ^ 1023 = 2 powi 1023" by simp
  ultimately show ?thesis
    by (simp only: feast_def or0_def js_or0_Fin meal.simps option.case)
qed

lemma rating_sum_feast: "rating_sum [feast, feast] = PosInf"
proof -
  have 1: "dadd (Fin 0) (Fin (2 powi 1023)) = Fin (2 powi 1023)"
    using round64_pow2 [of 1023] by simp
  have "(2::rat) powi 1024 = 2 powi 1023 + 2 powi 1023"
    using powi2_split [of 1 1023] by simp
  then have "round64 (2 powi 1023 + 2 powi 1023) = PosInf"
    by (intro round64_huge) simp
  then have 2: "dadd (Fin (2 powi 1023)) (Fin (2 powi 1023)) = PosInf"
    by (simp only: dadd.simps)
  show ?thesis
    by (simp only: rating_sum_def foldl.simps or0_feast 1 2)
qed

lemma average_feast: "average_rating [feast, feast] = PosInf"
  by (simp add: average_rating_def rating_sum_feast js_or0_def)

section \<open>What loadHomeData stores\<close>

lemma those_map_Some: "those (map Some ms) = Some ms"
  by (induction ms) simp_all

lemma those_None_iff: "those xs = None \<longleftrightarrow> \<not> list_all (\<lambda>x. x \<noteq> None) xs"
  by (induction xs) (auto split: option.splits)

lemma with_meals_featured:
  "featuredMeals (with_meals h (map Some ms) s) = map Some (featured ms)"
  by (cases h) (simp_all add: with_meals_def those_map_Some Let_def featured_def failed_def)

lemma with_meals_stats:
  "stats (with_meals (Object h) (map Some ms) s)
     = Some \<lparr>totalMeals = length ms, healthySystem = (status h = Some ''healthy''),
             stats_averageRating = average_rating (js_sort comparator ms)\<rparr>"
  by (simp add: with_meals_def those_map_Some Let_def length_js_sort)

lemma with_meals_error:
  "error (with_meals h xs s)
     = (case h of
          Nullish \<Rightarrow> Some failed_message
        | Object hv \<Rightarrow> if list_all (\<lambda>x. x \<noteq> None) xs then error s else Some failed_message)"
proof (cases "those xs")
  case None
  then have "\<not> list_all (\<lambda>x. x \<noteq> None) xs" by (simp add: those_None_iff)
  with None show ?thesis
    by (cases h) (simp_all add: with_meals_def failed_def)
next
  case (Some ms)
  then have "list_all (\<lambda>x. x \<noteq> None) xs"
    using those_None_iff [of xs] by simp
  with Some show ?thesis
    by (cases h) (simp_all add: with_meals_def failed_def Let_def)
qed

lemma with_meals_loading: "loading (with_meals h xs s) = False"
  by (cases "those xs"; cases h) (simp_all add: with_meals_def failed_def Let_def)

lemma loadHomeData_featured:
  "featuredMeals (loadHomeData (Resolved i) (Resolved h)
      (Resolved (Object \<lparr>meals = Array (map Some ms)\<rparr>)) s0) = map Some (featured ms)"
  "featuredMeals (loadHomeData (Resolved i) (Resolved h)
      (Resolved (Object \<lparr>meals = Falsy\<rparr>)) s0) = []"
  using with_meals_featured [of h "[]"]
  by (simp_all add: loadHomeData_def Let_def with_meals_featured featured_def)

lemma loadHomeData_stats:
  "stats (loadHomeData (Resolved i) (Resolved (Object h))
      (Resolved (Object \<lparr>meals = Array (map Some ms)\<rparr>)) s0)
     = Some \<lparr>totalMeals = length ms, healthySystem = (status h = Some ''healthy''),
             stats_averageRating = average_rating (js_sort comparator ms)\<rparr>"
  "stats (loadHomeData (Resolved i) (Resolved (Object h))
      (Resolved (Object \<lparr>meals = Falsy\<rparr>)) s0)
     = Some \<lparr>totalMeals = 0, healthySystem = (status h = Some ''healthy''),
             stats_averageRating = average_rating []\<rparr>"
  using with_meals_stats [of h "[]"]
  by (simp_all add: loadHomeData_def Let_def with_meals_stats)

lemma average_rating_Nil: "average_rating [] = Fin 0"
  by (simp add: average_rating_def rating_sum_def js_or0_def)

lemma average_rating_not_NaN: "average_rating ms \<noteq> NaN"
  by (simp add: average_rating_def js_or0_not_NaN)

lemma loadHomeData_error:
  "error (loadHomeData a h m s0) =
     (case (a, h, m) of
        (Resolved i, Resolved (Object hv), Resolved (Object r)) \<Rightarrow>
          (case meals r of
             Falsy \<Rightarrow> None
           | NoArray \<Rightarrow> Some failed_message
           | Array xs \<Rightarrow> if list_all (\<lambda>x. x \<noteq> None) xs then None else Some failed_message)
      | _ \<Rightarrow> Some failed_message)"
proof (cases a)
  case Rejected
  then show ?thesis by (simp add: loadHomeData_def failed_def)
next
  case ra: (Resolved i)
  show ?thesis
  proof (cases h)
    case Rejected
    with ra show ?thesis by (simp add: loadHomeData_def failed_def)
  next
    case rh: (Resolved hw)
    show ?thesis
    proof (cases m)
      case Rejected
      with ra rh show ?thesis
        by (cases hw) (simp_all add: loadHomeData_def failed_def Let_def)
    next
      case rm: (Resolved mv)
      show ?thesis
      proof (cases mv)
        case Nullish
        with ra rh rm show ?thesis
          by (cases hw) (simp_all add: loadHomeData_def failed_def Let_def)
      next
        case (Object r)
        with ra rh rm show ?thesis
          by (cases hw; cases "meals r")
            (simp_all add: loadHomeData_def failed_def Let_def with_meals_error)
      qed
    qed
  qed
qed

lemma loadHomeData_loading: "loading (loadHomeData a h m s0) = False"
proof (cases a)
  case Rejected
  then show ?thesis by (simp add: loadHomeData_def failed_def)
next
  case ra: (Resolved i)
  show ?thesis
  proof (cases h)
    case Rejected
    with ra show ?thesis by (simp add: loadHomeData_def failed_def)
  next
    case rh: (Resolved hw)
    show ?thesis
    proof (cases m)
      case Rejected
      with ra rh show ?thesis by (simp add: loadHomeData_def failed_def Let_def)
    next
      case rm: (Resolved mv)
      show ?thesis
      proof (cases mv)
        case Nullish
        with ra rh rm show ?thesis by (simp add: loadHomeData_def failed_def Let_def)
      next
        case (Object r)
        with ra rh rm show ?thesis
          by (cases "meals r") (simp_all add: loadHomeData_def failed_def Let_def with_meals_loading)
      qed
    qed
  qed
qed

section \<open>The featured list\<close>




text \<open>
  C1, as the code has it. The featured list that \<^verbatim>\<open>loadHomeData\<close> computes has at most
  6 entries (the limit is the constant 6 of \<^verbatim>\<open>slice(0, 6)\<close>, not a parameter), every entry
  is one of the fetched meals and occurs no more often than it was fetched, and a fetched list
  of at most 6 meals is returned whole, without padding. The code does not deduplicate: the
  identifiers in the featured list are pairwise distinct when those of the fetched list are.
\<close>

theorem featured_at_most_six:
  "featuredMeals (loadHomeData (Resolved i) (Resolved h)
      (Resolved (Object \<lparr>meals = Array (map Some ms)\<rparr>)) s0) = map Some (featured ms)
   \<and> featuredMeals (loadHomeData (Resolved i) (Resolved h)
      (Resolved (Object \<lparr>meals = Falsy\<rparr>)) s0) = map Some (featured [])
   \<and> length (featured ms) \<le> 6
   \<and> mset (featured ms) \<subseteq># mset ms
   \<and> (distinct (map meal_id ms) \<longrightarrow> distinct (map meal_id (featured ms)))
   \<and> (length ms \<le> 6 \<longrightarrow> mset (featured ms) = mset ms)"
proof -
  have "mset (take 6 (js_sort comparator ms)) \<subseteq># mset (js_sort comparator ms)"
    by (metis append_take_drop_id mset_append mset_subset_eq_add_left)
  then have sub: "mset (featured ms) \<subseteq># mset ms"
    by (simp add: featured_def mset_js_sort)
  have d: "distinct (map meal_id (featured ms))" if "distinct (map meal_id ms)"
    using distinct_ids_js_sort [OF that, of comparator]
    by (simp add: featured_def take_map [symmetric] distinct_take)
  have all: "mset (featured ms) = mset ms" if "length ms \<le> 6"
    using that by (simp add: featured_def length_js_sort mset_js_sort)
  have len: "length (featured ms) \<le> 6"
    by (simp add: featured_def)
  have e: "map Some (featured []) = []"
    by (simp add: featured_def)
  from sub d all len loadHomeData_featured(1) [of i h ms s0] loadHomeData_featured(2) [of i h s0]
  show ?thesis
    unfolding e by blast
qed

theorem featured_at_most_six_witness:
  "distinct (map meal_id [salad, curry, soup]) \<and> length [salad, curry, soup] \<le> 6
   \<and> distinct (map meal_id (featured [salad, curry, soup]))
   \<and> mset (featured [salad, curry, soup]) = mset [salad, curry, soup]"
  using featured_at_most_six [of _ _ "[salad, curry, soup]"]
  by (simp add: salad_def curry_def soup_def)

text \<open>
  The claim as stated, each identifier exactly once for every candidate sequence, fails on a
  fetched list that holds the same meal twice.
\<close>

theorem featured_duplicate_ids_counterexample:
  "\<not> distinct (map meal_id (featured [salad, salad]))"
proof -
  have "mset (featured [salad, salad]) = mset [salad, salad]"
    by (simp add: featured_def length_js_sort mset_js_sort)
  then have "mset (map meal_id (featured [salad, salad])) = mset (map meal_id [salad, salad])"
    by (simp only: mset_map)
  then have "distinct (map meal_id (featured [salad, salad])) \<longleftrightarrow> distinct (map meal_id [salad, salad])"
    by (rule mset_eq_imp_distinct_iff)
  then show ?thesis by simp
qed




section \<open>Errors of loadHomeData\<close>

text \<open>
  C3, as the code has it. \<^verbatim>\<open>loadHomeData\<close> has no InvalidInput error and no limit
  parameter, and an empty or absent meals list is not an error: the featured list is empty,
  the statistics count 0 meals with average 0, no error is set and \<open>loading\<close> is cleared.
  It ends without an error exactly when the three calls resolve, the health answer and the
  meals answer are not \<^verbatim>\<open>null\<close>, and the \<^verbatim>\<open>meals\<close> property is falsy or an array
  without a \<^verbatim>\<open>null\<close> element. In every other case, a rejected call or a
  \<^verbatim>\<open>TypeError\<close>, what was thrown is not passed on: the error is the one fixed message.
\<close>

theorem loadHomeData_error_cases:
  "error (loadHomeData a h m s0) =
     (case (a, h, m) of
        (Resolved i, Resolved (Object hv), Resolved (Object r)) \<Rightarrow>
          (case meals r of
             Falsy \<Rightarrow> None
           | NoArray \<Rightarrow> Some failed_message
           | Array xs \<Rightarrow> if list_all (\<lambda>x. x \<noteq> None) xs then None else Some failed_message)
      | _ \<Rightarrow> Some failed_message)
   \<and> loading (loadHomeData a h m s0) = False
   \<and> featuredMeals (loadHomeData (Resolved i') (Resolved (Object hv'))
         (Resolved (Object \<lparr>meals = Array []\<rparr>)) s0) = []
   \<and> stats (loadHomeData (Resolved i') (Resolved (Object hv'))
         (Resolved (Object \<lparr>meals = Array []\<rparr>)) s0)
       = Some \<lparr>totalMeals = 0, healthySystem = (status hv' = Some ''healthy''),
               stats_averageRating = Fin 0\<rparr>
   \<and> featuredMeals (loadHomeData (Resolved i') (Resolved (Object hv'))
         (Resolved (Object \<lparr>meals = Falsy\<rparr>)) s0) = []
   \<and> stats (loadHomeData (Resolved i') (Resolved (Object hv'))
         (Resolved (Object \<lparr>meals = Falsy\<rparr>)) s0)
       = Some \<lparr>totalMeals = 0, healthySystem = (status hv' = Some ''healthy''),
               stats_averageRating = Fin 0\<rparr>"
proof -
  have f: "featuredMeals (loadHomeData (Resolved i') (Resolved (Object hv'))
         (Resolved (Object \<lparr>meals = Array []\<rparr>)) s0) = []"
    using loadHomeData_featured(1) [of i' "Object hv'" "[]" s0] by (simp add: featured_def)
  have s: "stats (loadHomeData (Resolved i') (Resolved (Object hv'))
         (Resolved (Object \<lparr>meals = Array []\<rparr>)) s0)
       = Some \<lparr>totalMeals = 0, healthySystem = (status hv' = Some ''healthy''),
               stats_averageRating = Fin 0\<rparr>"
    using loadHomeData_stats(1) [of i' hv' "[]" s0] by (simp add: average_rating_Nil)
  show ?thesis
    by (simp only: loadHomeData_error loadHomeData_loading f s loadHomeData_featured(2)
        loadHomeData_stats(2) average_rating_Nil simp_thms)
qed

text \<open>The claimed failure on an empty candidate list does not happen.\<close>

theorem loadHomeData_empty_counterexample:
  "error (loadHomeData (Resolved (Object api_up)) (Resolved (Object health_ok))
      (Resolved (Object \<lparr>meals = Array []\<rparr>)) initial_state) = None
   \<and> featuredMeals (loadHomeData (Resolved (Object api_up)) (Resolved (Object health_ok))
      (Resolved (Object \<lparr>meals = Array []\<rparr>)) initial_state) = []
   \<and> error (loadHomeData (Resolved (Object api_up)) (Resolved (Object health_ok))
      (Resolved (Object \<lparr>meals = Falsy\<rparr>)) initial_state) = None"
  by (simp add: loadHomeData_def with_meals_def api_up_def health_ok_def initial_state_def Let_def)

text \<open>
  Errors that are no rejected call, each caught and reported with the fixed message: a
  \<^verbatim>\<open>null\<close> answer of \<^verbatim>\<open>getMeals\<close>, a \<^verbatim>\<open>meals\<close> property that is no array, a
  \<^verbatim>\<open>null\<close> meal, and a \<^verbatim>\<open>null\<close> health answer, met after the featured list was stored.
\<close>

lemma loadHomeData_type_errors:
  "error (loadHomeData (Resolved (Object api_up)) (Resolved (Object health_ok))
      (Resolved Nullish) initial_state) = Some failed_message"
  "error (loadHomeData (Resolved (Object api_up)) (Resolved (Object health_ok))
      (Resolved (Object \<lparr>meals = NoArray\<rparr>)) initial_state) = Some failed_message"
  "error (loadHomeData (Resolved (Object api_up)) (Resolved (Object health_ok))
      (Resolved (Object \<lparr>meals = Array [Some salad, None]\<rparr>)) initial_state) = Some failed_message"
  "featuredMeals (loadHomeData (Resolved (Object api_up)) (Resolved (Object health_ok))
      (Resolved (Object \<lparr>meals = Array [None]\<rparr>)) initial_state) = [None]"
  "error (loadHomeData (Resolved (Object api_up)) (Resolved Nullish)
      (Resolved (Object \<lparr>meals = Array [Some salad]\<rparr>)) initial_state) = Some failed_message"
  "featuredMeals (loadHomeData (Resolved (Object api_up)) (Resolved Nullish)
      (Resolved (Object \<lparr>meals = Array [Some salad]\<rparr>)) initial_state) = [Some salad]"
  by (simp_all add: loadHomeData_def with_meals_def failed_def initial_state_def Let_def)

section \<open>The comparator decides by the plain sum where it is exact\<close>




section \<open>The displayed average rating\<close>

text \<open>
  C10. In the statistics that \<^verbatim>\<open>loadHomeData\<close> stores, \<open>averageRating\<close> is the
  floating-point sum of the meals' ratings, absent ones counting 0, divided by the number of
  meals, with the fallback \<^verbatim>\<open>|| 0\<close>. The ratings are added in the order of the sorted array,
  an arrangement of the fetched meals. The stored value is a number, never \<^verbatim>\<open>NaN\<close>, for
  every fetched list, and it is 0 for an empty or absent list, where the quotient itself,
  0 / 0, is \<^verbatim>\<open>NaN\<close>.
\<close>

theorem stats_averageRating_number:
  "(\<exists>st ys. stats (loadHomeData (Resolved i) (Resolved (Object h))
                (Resolved (Object \<lparr>meals = Array (map Some ms)\<rparr>)) s0) = Some st
       \<and> mset ys = mset ms
       \<and> stats_averageRating st = js_or0 (ddiv (rating_sum ys) (length ms))
       \<and> stats_averageRating st \<noteq> NaN)
   \<and> (\<exists>st. stats (loadHomeData (Resolved i) (Resolved (Object h))
                (Resolved (Object \<lparr>meals = Array []\<rparr>)) s0) = Some st
       \<and> stats_averageRating st = Fin 0)
   \<and> (\<exists>st. stats (loadHomeData (Resolved i) (Resolved (Object h))
                (Resolved (Object \<lparr>meals = Falsy\<rparr>)) s0) = Some st
       \<and> stats_averageRating st = Fin 0)
   \<and> ddiv (rating_sum []) (length ([] :: meal list)) = NaN
   \<and> js_or0 (ddiv (rating_sum zs) (length zs)) \<noteq> NaN"
proof -
  let ?ys = "js_sort comparator ms"
  have 1: "\<exists>st ys. stats (loadHomeData (Resolved i) (Resolved (Object h))
                (Resolved (Object \<lparr>meals = Array (map Some ms)\<rparr>)) s0) = Some st
       \<and> mset ys = mset ms
       \<and> stats_averageRating st = js_or0 (ddiv (rating_sum ys) (length ms))
       \<and> stats_averageRating st \<noteq> NaN"
  proof (intro exI conjI)
    show "stats (loadHomeData (Resolved i) (Resolved (Object h))
                (Resolved (Object \<lparr>meals = Array (map Some ms)\<rparr>)) s0)
            = Some \<lparr>totalMeals = length ms, healthySystem = (status h = Some ''healthy''),
                    stats_averageRating = average_rating ?ys\<rparr>"
      by (rule loadHomeData_stats(1))
    show "mset ?ys = mset ms" by (rule mset_js_sort)
    show "stats_averageRating \<lparr>totalMeals = length ms, healthySystem = (status h = Some ''healthy''),
                    stats_averageRating = average_rating ?ys\<rparr>
            = js_or0 (ddiv (rating_sum ?ys) (length ms))"
      by (simp add: average_rating_def length_js_sort)
    show "stats_averageRating \<lparr>totalMeals = length ms, healthySystem = (status h = Some ''healthy''),
                    stats_averageRating = average_rating ?ys\<rparr> \<noteq> NaN"
      by (simp add: average_rating_not_NaN)
  qed
  have 2: "\<exists>st. stats (loadHomeData (Resolved i) (Resolved (Object h))
                (Resolved (Object \<lparr>meals = Array []\<rparr>)) s0) = Some st
       \<and> stats_averageRating st = Fin 0"
    using loadHomeData_stats(1) [of i h "[]" s0] by (simp add: average_rating_Nil)
  have 3: "\<exists>st. stats (loadHomeData (Resolved i) (Resolved (Object h))
                (Resolved (Object \<lparr>meals = Falsy\<rparr>)) s0) = Some st
       \<and> stats_averageRating st = Fin 0"
    using loadHomeData_stats(2) [of i h s0] by (simp add: average_rating_Nil)
  have 4: "ddiv (rating_sum []) (length ([] :: meal list)) = NaN"
    by (simp add: rating_sum_def)
  have 5: "js_or0 (ddiv (rating_sum zs) (length zs)) \<noteq> NaN"
    by (rule js_or0_not_NaN)
  from 1 2 3 4 5 show ?thesis by (intro conjI)
qed

section \<open>The engine: what the stages keep\<close>

lemma set_rank_insert: "set (rank_insert x xs) = insert x (set xs)"
  by (induction xs) auto

lemma set_rank_sort: "set (rank_sort xs) = set xs"
  by (induction xs) (auto simp: set_rank_insert)

lemma set_dedup_ids: "set (dedup_ids seen xs) \<subseteq> set xs"
  by (induction xs arbitrary: seen) auto

lemma set_diversity_walk:
  "set (fst (diversity_walk limit k selected deferred xs))
     \<union> set (snd (diversity_walk limit k selected deferred xs))
   \<subseteq> set selected \<union> set deferred \<union> set xs"
  by (induction limit k selected deferred xs rule: diversity_walk.induct) auto

lemma set_diversity_pass: "set (diversity_pass limit xs) \<subseteq> set (take (3 * limit) xs)"
proof -
  obtain sel def where w: "diversity_walk limit (max 1 (limit div 3)) [] [] (take (3 * limit) xs) = (sel, def)"
    by (cases "diversity_walk limit (max 1 (limit div 3)) [] [] (take (3 * limit) xs)")
  from set_diversity_walk [of limit "max 1 (limit div 3)" "[]" "[]" "take (3 * limit) xs"]
  have inner: "set (sel @ def) \<subseteq> set (take (3 * limit) xs)"
    unfolding w by simp
  have dp: "diversity_pass limit xs = take limit (sel @ def)"
    unfolding diversity_pass_def w by simp
  have "set (take limit (sel @ def)) \<subseteq> set (sel @ def)"
    by (rule set_take_subset)
  then show ?thesis
    unfolding dp using inner by (rule subset_trans)
qed

lemma rank_success:
  assumes "candidates \<noteq> []" and "0 < limit" and "\<not> inconsistent mlScores"
  shows "rank candidates goal mlScores limit =
           Inr \<lparr>recommendation =
                  diversity_pass (nat limit)
                    (dedup_ids [] (rank_sort (map (score goal mlScores (max_popularity candidates))
                       (filter (\<lambda>m. \<not> excluded goal m) candidates)))),
                mlDegraded = (mlScores = None)\<rparr>"
  using assms by (simp add: rank_def Let_def)

lemma rank_Inr_iff:
  "(\<exists>res. rank candidates goal mlScores limit = Inr res)
     \<longleftrightarrow> candidates \<noteq> [] \<and> 0 < limit \<and> \<not> inconsistent mlScores"
  by (auto simp: rank_def Let_def)

lemma recommendation_scored:
  assumes "rank candidates goal mlScores limit = Inr res" and "it \<in> set (recommendation res)"
  shows "\<exists>m \<in> set candidates. \<not> excluded goal m
           \<and> it = score goal mlScores (max_popularity candidates) m"
proof -
  from assms(1) have ok: "candidates \<noteq> []" "0 < limit" "\<not> inconsistent mlScores"
    using rank_Inr_iff [of candidates goal mlScores limit] by auto
  let ?scored = "map (score goal mlScores (max_popularity candidates))
                   (filter (\<lambda>m. \<not> excluded goal m) candidates)"
  from assms(1) have "recommendation res = diversity_pass (nat limit) (dedup_ids [] (rank_sort ?scored))"
    using rank_success [OF ok, of goal] by auto
  with assms(2) have "it \<in> set (take (3 * nat limit) (dedup_ids [] (rank_sort ?scored)))"
    using set_diversity_pass by auto
  then have "it \<in> set (dedup_ids [] (rank_sort ?scored))"
    by (rule in_set_takeD)
  then have "it \<in> set ?scored"
    using set_dedup_ids [of "[]" "rank_sort ?scored"] by (auto simp: set_rank_sort)
  then show ?thesis by auto
qed

lemma score_meal: "r_meal (score goal mlScores maxPop m) = m"
  by (simp add: score_def Let_def split: prod.splits)

lemma effective_weights_no_ml:
  "effective_weights hasFit False
     = (if hasFit then (5 / 13, 3 / 13, 5 / 13, 0) else (5 / 8, 3 / 8, 0, 0))"
  by (simp add: effective_weights_def Let_def w_rating_def w_popularity_def w_nutritionFit_def)

lemma score_degraded:
  "score goal None maxPop m =
     (case effective_weights (goal \<noteq> None) False of
        (wr, wp, wn, wm) \<Rightarrow>
          \<lparr>r_meal = m,
           compositeScore = wr * rating_component m + wp * popularity_component maxPop m
              + wn * (case goal of None \<Rightarrow> 0 | Some g \<Rightarrow> nutrition_fit_component g m),
           scoreBreakdown = \<lparr>ratingComponent = rating_component m,
                             popularityComponent = popularity_component maxPop m,
                             nutritionFitComponent = map_option (\<lambda>g. nutrition_fit_component g m) goal,
                             mlComponent = None\<rparr>\<rparr>)"
  by (cases goal) (simp_all add: score_def Let_def ml_component_def effective_weights_no_ml)

lemma not_excluded_disjoint:
  "\<not> excluded (Some g) m \<longleftrightarrow> set (m_tags m) \<inter> set (g_restrictions g) = {}"
  by (auto simp: excluded_def list_ex_iff)

section \<open>The engine of the specification: degraded mode and exclusion\<close>

lemma steak_dal_ranked: "rank [steak, dal] (Some vegetarian) None 2
     = Inr \<lparr>recommendation = [score (Some vegetarian) None 0 dal], mlDegraded = True\<rparr>"
  by (simp add: rank_def Let_def inconsistent_def excluded_def steak_def dal_def vegetarian_def
      max_popularity_def diversity_pass_def)

text \<open>
  C5, on the engine as the specification describes it. With candidates, a positive limit
  and the ML mapping absent, \<open>rank\<close> succeeds and sets \<open>mlDegraded\<close>; every ranked
  meal is a candidate, has no ML component, and its composite score is the sum of its
  rating, popularity and (with a goal) nutrition-fit components under the renormalized
  weights, which sum to 1, the ML weight being 0.
\<close>

theorem degraded_mode_succeeds:
  assumes "candidates \<noteq> []" and "0 < limit"
  shows "\<exists>res. rank candidates goal None limit = Inr res \<and> mlDegraded res
           \<and> (\<forall>it \<in> set (recommendation res).
                 r_meal it \<in> set candidates
                 \<and> mlComponent (scoreBreakdown it) = None
                 \<and> ratingComponent (scoreBreakdown it) = rating_component (r_meal it)
                 \<and> popularityComponent (scoreBreakdown it)
                      = popularity_component (max_popularity candidates) (r_meal it)
                 \<and> nutritionFitComponent (scoreBreakdown it)
                      = map_option (\<lambda>g. nutrition_fit_component g (r_meal it)) goal
                 \<and> (case effective_weights (goal \<noteq> None) False of
                       (wr, wp, wn, wm) \<Rightarrow>
                         wm = 0 \<and> wr + wp + wn = 1
                         \<and> compositeScore it
                             = wr * ratingComponent (scoreBreakdown it)
                               + wp * popularityComponent (scoreBreakdown it)
                               + wn * (case nutritionFitComponent (scoreBreakdown it) of
                                         None \<Rightarrow> 0 | Some v \<Rightarrow> v)))"
    (is "\<exists>res. _ \<and> _ \<and> (\<forall>it \<in> _. ?P it)")
proof -
  have ni: "\<not> inconsistent None" by (simp add: inconsistent_def)
  let ?res = "\<lparr>recommendation =
                  diversity_pass (nat limit)
                    (dedup_ids [] (rank_sort (map (score goal None (max_popularity candidates))
                       (filter (\<lambda>m. \<not> excluded goal m) candidates)))),
                mlDegraded = True\<rparr>"
  have res: "rank candidates goal None limit = Inr ?res"
    using rank_success [OF assms ni, of goal] by simp
  have deg: "mlDegraded ?res" by simp
  have items: "?P it" if "it \<in> set (recommendation ?res)" for it
  proof -
    from recommendation_scored [OF res that] obtain m where
      m: "m \<in> set candidates" "it = score goal None (max_popularity candidates) m" by blast
    show ?thesis
      using m(1) unfolding m(2) score_degraded
      by (cases goal) (simp_all add: effective_weights_no_ml)
  qed
  show ?thesis
  proof (rule exI [of _ ?res], rule conjI [OF res], rule conjI [OF deg], rule ballI)
    fix it assume "it \<in> set (recommendation ?res)"
    then show "?P it" by (rule items)
  qed
qed

theorem degraded_mode_succeeds_witness:
  "[steak, dal] \<noteq> [] \<and> (0::int) < 2
   \<and> (\<exists>res. rank [steak, dal] None None 2 = Inr res \<and> mlDegraded res)"
  using degraded_mode_succeeds [of "[steak, dal]" 2 None]
  by auto

text \<open>
  C6, on the engine as the specification describes it. When \<open>rank\<close> succeeds for a
  goal \<open>g\<close>, no recommended meal has a tag among the restrictions of \<open>g\<close>, whatever
  its score.
\<close>

theorem restricted_meals_never_recommended:
  assumes "rank candidates (Some g) mlScores limit = Inr res"
  shows "\<forall>it \<in> set (recommendation res). set (m_tags (r_meal it)) \<inter> set (g_restrictions g) = {}"
proof
  fix it assume "it \<in> set (recommendation res)"
  from recommendation_scored [OF assms this] obtain m where
    m: "\<not> excluded (Some g) m" "it = score (Some g) mlScores (max_popularity candidates) m" by blast
  from m(1) have "set (m_tags m) \<inter> set (g_restrictions g) = {}"
    by (simp only: not_excluded_disjoint)
  with m(2) show "set (m_tags (r_meal it)) \<inter> set (g_restrictions g) = {}"
    by (simp only: score_meal)
qed

text \<open>
  The witness: \<open>steak\<close> has the best rating and the tag meat, which the goal
  restricts; the recommendation holds \<open>dal\<close> only.
\<close>

theorem restricted_meals_never_recommended_witness:
  "rank [steak, dal] (Some vegetarian) None 2
     = Inr \<lparr>recommendation = [score (Some vegetarian) None 0 dal], mlDegraded = True\<rparr>
   \<and> set (m_tags (r_meal (score (Some vegetarian) None 0 dal))) \<inter> set (g_restrictions vegetarian) = {}
   \<and> set (m_tags steak) \<inter> set (g_restrictions vegetarian) \<noteq> {}"
proof -
  from restricted_meals_never_recommended [OF steak_dal_ranked]
  have "set (m_tags (r_meal (score (Some vegetarian) None 0 dal))) \<inter> set (g_restrictions vegetarian) = {}"
    by simp
  moreover have "set (m_tags steak) \<inter> set (g_restrictions vegetarian) \<noteq> {}"
    by (simp add: steak_def vegetarian_def)
  ultimately show ?thesis
    using steak_dal_ranked by blast
qed

end
